theory Spec2Isabelle
  imports Main "HOL-Library.Option_ord"
begin

section \<open>Values exchanged with the handlers\<close>

text \<open>
  The server in \<^verbatim>\<open>src/db_init.py\<close> (the part headed \<^verbatim>\<open>server (2).py\<close>) answers
  POST requests whose body is JSON. Every handler starts with \<^verbatim>\<open>json.loads(body)\<close>, so the
  model starts from the value that call produces. JSON numbers are modelled as integers and
  strings as lists of 8-bit characters (ASCII text).
\<close>

datatype json =
    JNull
  | JBool bool
  | JNum int
  | JStr string
  | JList "json list"
  | JObj "(string \<times> json) list"

text \<open>The request body: either \<^verbatim>\<open>json.loads\<close> raises (with the given message) or it
  returns a value.\<close>

datatype body = Malformed string | Parsed json

text \<open>The exceptions that the modelled code can raise, each with the text of \<^verbatim>\<open>str(e)\<close>.\<close>

datatype exn =
    JSONDecodeError string
  | AttributeError string
  | TypeError string
  | ValueError string

fun str_exn :: "exn \<Rightarrow> string" where
  "str_exn (JSONDecodeError m) = m"
| "str_exn (AttributeError m) = m"
| "str_exn (TypeError m) = m"
| "str_exn (ValueError m) = m"

text \<open>What a handler sends back: \<^verbatim>\<open>send_response(status)\<close> followed by
  \<^verbatim>\<open>json.dumps(...)\<close> of a dictionary, or nothing at all. The purely decorative
  \<^verbatim>\<open>message\<close>, \<^verbatim>\<open>note\<close> and \<^verbatim>\<open>schedule\<close> fields of the success bodies
  (display text with emoji and Bengali script) are left out of the modelled bodies.\<close>

datatype response = Response nat json | NoResponse

type_synonym timestamp = int

section \<open>Python primitives used by the handlers\<close>

fun type_name :: "json \<Rightarrow> string" where
  "type_name JNull = ''NoneType''"
| "type_name (JBool b) = ''bool''"
| "type_name (JNum n) = ''int''"
| "type_name (JStr s) = ''str''"
| "type_name (JList xs) = ''list''"
| "type_name (JObj kvs) = ''dict''"

definition no_attribute :: "json \<Rightarrow> string \<Rightarrow> exn" where
  "no_attribute v attr =
     AttributeError ([CHR 0x27] @ type_name v @ [CHR 0x27] @ '' object has no attribute ''
                     @ [CHR 0x27] @ attr @ [CHR 0x27])"

text \<open>Truth value of an object, as tested by \<^verbatim>\<open>if x\<close> and \<^verbatim>\<open>not x\<close>.\<close>

fun truthy :: "json \<Rightarrow> bool" where
  "truthy JNull = False"
| "truthy (JBool b) = b"
| "truthy (JNum n) = (n \<noteq> 0)"
| "truthy (JStr s) = (s \<noteq> [])"
| "truthy (JList xs) = (xs \<noteq> [])"
| "truthy (JObj kvs) = (kvs \<noteq> [])"

text \<open>\<^verbatim>\<open>len(x)\<close>: defined on strings, lists and dictionaries, a TypeError elsewhere.\<close>

fun py_len :: "json \<Rightarrow> exn + nat" where
  "py_len (JStr s) = Inr (length s)"
| "py_len (JList xs) = Inr (length xs)"
| "py_len (JObj kvs) = Inr (length kvs)"
| "py_len v = Inl (TypeError (''object of type '' @ [CHR 0x27] @ type_name v @ [CHR 0x27]
                              @ '' has no len()''))"

text \<open>\<^verbatim>\<open>data.get(key, default)\<close>: only a dictionary has the method.\<close>

definition py_get :: "json \<Rightarrow> string \<Rightarrow> json \<Rightarrow> exn + json" where
  "py_get data k d =
     (case data of
        JObj kvs \<Rightarrow> Inr (case map_of kvs k of None \<Rightarrow> d | Some v \<Rightarrow> v)
      | _ \<Rightarrow> Inl (no_attribute data ''get''))"

definition lower_char :: "char \<Rightarrow> char" where
  "lower_char c =
     (if 65 \<le> (of_char c :: nat) \<and> (of_char c :: nat) \<le> 90
      then char_of ((of_char c :: nat) + 32) else c)"

text \<open>\<^verbatim>\<open>x.lower()\<close>: only a string has the method.\<close>

definition py_lower :: "json \<Rightarrow> exn + string" where
  "py_lower v =
     (case v of JStr s \<Rightarrow> Inr (map lower_char s) | _ \<Rightarrow> Inl (no_attribute v ''lower''))"

definition startswith :: "string \<Rightarrow> string \<Rightarrow> bool" where
  "startswith s p = (take (length p) s = p)"

text \<open>Sequencing of computations that may raise: the first exception ends the block.\<close>

definition bind_exn :: "exn + 'a \<Rightarrow> ('a \<Rightarrow> exn + 'b) \<Rightarrow> exn + 'b" where
  "bind_exn m f = (case m of Inl e \<Rightarrow> Inl e | Inr x \<Rightarrow> f x)"

text \<open>\<^verbatim>\<open>data = json.loads(body)\<close>.\<close>

definition json_loads :: "body \<Rightarrow> exn + json" where
  "json_loads b = (case b of Malformed m \<Rightarrow> Inl (JSONDecodeError m) | Parsed v \<Rightarrow> Inr v)"

section \<open>The record store\<close>

text \<open>
  The five tables are those created in \<^verbatim>\<open>run()\<close>. A table is the list of its rows in
  insertion order; a column that may hold NULL is an option. The statements of the server
  are read with the meaning they have in SQLite, the dialect they are written in
  (\<^verbatim>\<open>?\<close> placeholders, \<^verbatim>\<open>INSERT OR IGNORE\<close>). A timestamp is a point on an integer time
  line, counted in microseconds; the textual form (\<^verbatim>\<open>isoformat()\<close>,
  \<^verbatim>\<open>CURRENT_TIMESTAMP\<close>) is not modelled. The text columns of \<^verbatim>\<open>secret_keys\<close> keep
  the scalar that was bound (\<^verbatim>\<open>JNull\<close> is NULL). The statements of one request see one
  value of the database clock.
\<close>

record secret_key =
  sk_id :: nat
  private_key :: json
  source :: json
  device :: json
  status :: json
  created_at :: "timestamp option"

record app_setting =
  as_id :: nat
  as_key :: "string option"
  as_value :: "string option"

record permanent =
  pv_address :: string
  verified_at :: "timestamp option"
  expires_at :: "timestamp option"

record schedule =
  sc_address :: string
  sc_network :: string
  enabled :: "bool option"
  last_claim :: "timestamp option"
  next_claim_time :: "timestamp option"

record disabled_key =
  key_address :: string
  reason :: "string option"

record store =
  secret_keys :: "secret_key list"
  secret_keys_id_seq :: nat
  app_settings :: "app_setting list"
  permanent_verified :: "permanent list"
  auto_claim_schedule :: "schedule list"
  disabled_keys :: "disabled_key list"

definition empty_store :: store where
  "empty_store =
     \<lparr>secret_keys = [], secret_keys_id_seq = 1, app_settings = [], permanent_verified = [],
      auto_claim_schedule = [], disabled_keys = []\<rparr>"

text \<open>The declared primary keys of \<^verbatim>\<open>permanent_verified\<close> and \<^verbatim>\<open>auto_claim_schedule\<close>.\<close>

definition pk_permanent_verified :: "store \<Rightarrow> bool" where
  "pk_permanent_verified db = distinct (map pv_address (permanent_verified db))"

definition sc_key :: "schedule \<Rightarrow> string \<times> string" where
  "sc_key r = (sc_address r, sc_network r)"


text \<open>A parameter of a statement is bound by the \<^verbatim>\<open>sqlite3\<close> module if it is None, a
  number, a boolean or a string; a list or a dictionary makes \<^verbatim>\<open>execute\<close> raise a
  \<^verbatim>\<open>sqlite3.Error\<close>.\<close>

fun bindable :: "json \<Rightarrow> bool" where
  "bindable (JList xs) = False"
| "bindable (JObj kvs) = False"
| "bindable v = True"

subsection \<open>Statements on \<^verbatim>\<open>secret_keys\<close>\<close>

text \<open>
  \<^verbatim>\<open>INSERT OR IGNORE INTO secret_keys (private_key, source, device, status) VALUES (?, ?, ?, ?)\<close>.
  The table declares one constraint, \<^verbatim>\<open>id SERIAL PRIMARY KEY\<close>; the row gets the next
  value of the sequence as its id and the current time of the database as
  \<^verbatim>\<open>created_at\<close>. The row is ignored exactly when it violates a constraint of the table,
  that is when its id is taken. The result is \<^verbatim>\<open>Inl ()\<close> for a \<^verbatim>\<open>sqlite3.Error\<close>, else the
  new store and \<^verbatim>\<open>cursor.rowcount\<close>.
\<close>

definition insert_or_ignore_secret_key ::
  "json \<Rightarrow> json \<Rightarrow> json \<Rightarrow> json \<Rightarrow> timestamp \<Rightarrow> store \<Rightarrow> unit + store \<times> nat" where
  "insert_or_ignore_secret_key key src dev st db_now db =
     (if bindable key \<and> bindable src \<and> bindable dev \<and> bindable st then
        (let row = \<lparr>sk_id = secret_keys_id_seq db, private_key = key, source = src,
                    device = dev, status = st, created_at = Some db_now\<rparr>;
             db' = db\<lparr>secret_keys_id_seq := Suc (secret_keys_id_seq db)\<rparr>
         in if sk_id row \<in> set (map sk_id (secret_keys db))
            then Inr (db', 0)
            else Inr (db'\<lparr>secret_keys := secret_keys db @ [row]\<rparr>, 1))
      else Inl ())"

text \<open>\<^verbatim>\<open>SELECT private_key, created_at, source, device, status FROM secret_keys ORDER BY
  created_at DESC\<close>; NULL sorts below every timestamp. SQL leaves the order of rows with
  equal \<^verbatim>\<open>created_at\<close> open; here the later row comes first.\<close>

definition select_secret_keys :: "store \<Rightarrow> secret_key list" where
  "select_secret_keys db = rev (sort_key created_at (secret_keys db))"

text \<open>\<^verbatim>\<open>DELETE FROM secret_keys\<close>: the new store and \<^verbatim>\<open>cursor.rowcount\<close>.\<close>

definition delete_secret_keys :: "store \<Rightarrow> store \<times> nat" where
  "delete_secret_keys db = (db\<lparr>secret_keys := []\<rparr>, length (secret_keys db))"

subsection \<open>Statements on \<^verbatim>\<open>permanent_verified\<close>\<close>

text \<open>
  \<^verbatim>\<open>INSERT INTO permanent_verified (address, verified_at, expires_at) VALUES (?, ?, NULL)
  ON CONFLICT (address) DO UPDATE SET verified_at = CURRENT_TIMESTAMP, expires_at = NULL\<close>.
  The inserted row carries the time the server read; the updated row the time of the
  database.
\<close>

definition upsert_permanent_verified ::
  "string \<Rightarrow> timestamp \<Rightarrow> timestamp \<Rightarrow> store \<Rightarrow> store" where
  "upsert_permanent_verified a now db_now db =
     db\<lparr>permanent_verified :=
          (if a \<in> set (map pv_address (permanent_verified db))
           then map (\<lambda>r. if pv_address r = a
                          then r\<lparr>verified_at := Some db_now, expires_at := None\<rparr> else r)
                    (permanent_verified db)
           else permanent_verified db
                @ [\<lparr>pv_address = a, verified_at = Some now, expires_at = None\<rparr>])\<rparr>"

text \<open>\<^verbatim>\<open>SELECT address, verified_at FROM permanent_verified ORDER BY verified_at DESC\<close>.\<close>

definition select_permanent_verified :: "store \<Rightarrow> permanent list" where
  "select_permanent_verified db = rev (sort_key verified_at (permanent_verified db))"

subsection \<open>Statements on \<^verbatim>\<open>auto_claim_schedule\<close>\<close>

text \<open>
  \<^verbatim>\<open>INSERT INTO auto_claim_schedule (address, network, enabled, last_claim, next_claim_time)
  VALUES (?, ?, ?, ?, ?) ON CONFLICT (address, network)
  DO UPDATE SET enabled = EXCLUDED.enabled, next_claim_time = EXCLUDED.next_claim_time\<close>.
\<close>

definition upsert_auto_claim_schedule ::
  "string \<Rightarrow> string \<Rightarrow> bool \<Rightarrow> timestamp \<Rightarrow> timestamp \<Rightarrow> store \<Rightarrow> store" where
  "upsert_auto_claim_schedule a n en lc nct db =
     db\<lparr>auto_claim_schedule :=
          (if (a, n) \<in> set (map sc_key (auto_claim_schedule db))
           then map (\<lambda>r. if sc_key r = (a, n)
                          then r\<lparr>enabled := Some en, next_claim_time := Some nct\<rparr> else r)
                    (auto_claim_schedule db)
           else auto_claim_schedule db
                @ [\<lparr>sc_address = a, sc_network = n, enabled = Some en, last_claim = Some lc,
                    next_claim_time = Some nct\<rparr>])\<rparr>"

subsection \<open>Statements on \<^verbatim>\<open>disabled_keys\<close>\<close>

text \<open>\<^verbatim>\<open>SELECT * FROM disabled_keys WHERE key_address = ?\<close> followed by \<^verbatim>\<open>fetchone()\<close>.\<close>

definition select_disabled_key :: "string \<Rightarrow> store \<Rightarrow> disabled_key option" where
  "select_disabled_key a db = find (\<lambda>r. key_address r = a) (disabled_keys db)"

text \<open>\<^verbatim>\<open>INSERT INTO disabled_keys (key_address, reason) VALUES (?, ?)
  ON CONFLICT (key_address) DO NOTHING\<close>.\<close>

definition insert_disabled_key :: "string \<Rightarrow> string \<Rightarrow> store \<Rightarrow> store" where
  "insert_disabled_key a why db =
     (if a \<in> set (map key_address (disabled_keys db)) then db
      else db\<lparr>disabled_keys := disabled_keys db @ [\<lparr>key_address = a, reason = Some why\<rparr>]\<rparr>)"

text \<open>\<^verbatim>\<open>DELETE FROM disabled_keys WHERE key_address = ?\<close>.\<close>

definition delete_disabled_key :: "string \<Rightarrow> store \<Rightarrow> store" where
  "delete_disabled_key a db =
     db\<lparr>disabled_keys := filter (\<lambda>r. key_address r \<noteq> a) (disabled_keys db)\<rparr>"

section \<open>The access gate\<close>

text \<open>
  \<^verbatim>\<open>MASTER_PASSWORD = hashlib.sha256('963050'.encode()).hexdigest()\<close>. The hash is a
  function of the library and a parameter here: \<open>sha256_hex s\<close> stands for
  \<^verbatim>\<open>hashlib.sha256(s.encode()).hexdigest()\<close>. Only a string has \<^verbatim>\<open>encode\<close>.
\<close>

definition MASTER_PASSWORD :: "(string \<Rightarrow> string) \<Rightarrow> string" where
  "MASTER_PASSWORD sha256_hex = sha256_hex ''963050''"

definition validate_password :: "(string \<Rightarrow> string) \<Rightarrow> json \<Rightarrow> exn + bool" where
  "validate_password sha256_hex password =
     (case password of
        JStr p \<Rightarrow> Inr (sha256_hex p = MASTER_PASSWORD sha256_hex)
      | _ \<Rightarrow> Inl (no_attribute password ''encode''))"

section \<open>The handlers of \<^verbatim>\<open>do_POST\<close>\<close>

text \<open>
  A handler takes the request body, the clock readings it makes, whether
  \<^verbatim>\<open>get_db_connection()\<close> returns a connection (\<open>up\<close>), and the store; it returns the
  response and the store it leaves behind. \<^verbatim>\<open>commit\<close> keeps the changes of the request,
  \<^verbatim>\<open>rollback\<close> and an exception before \<^verbatim>\<open>commit\<close> drop them. Failures of the storage
  engine other than a refused connection or an unbindable parameter are not modelled.
\<close>

definition error_body :: "exn \<Rightarrow> json" where
  "error_body e = JObj [(''error'', JStr (take 100 (str_exn e)))]"

definition failure_body :: "exn \<Rightarrow> json" where
  "failure_body e = JObj [(''success'', JBool False), (''error'', JStr (take 100 (str_exn e)))]"

definition timedelta :: "int \<Rightarrow> int \<Rightarrow> int \<Rightarrow> int" where
  "timedelta days hours minutes = (((days * 24 + hours) * 60 + minutes) * 60) * 1000000"

definition nullable_timestamp :: "timestamp option \<Rightarrow> json" where
  "nullable_timestamp t = (case t of None \<Rightarrow> JNull | Some v \<Rightarrow> JNum v)"

subsection \<open>\<^verbatim>\<open>/api/permanent-verified\<close>\<close>

definition post_permanent_verified ::
  "body \<Rightarrow> timestamp \<Rightarrow> timestamp \<Rightarrow> bool \<Rightarrow> store \<Rightarrow> response \<times> store" where
  "post_permanent_verified b now db_now up db =
     (case
        bind_exn (json_loads b) (\<lambda>data.
        bind_exn (py_get data ''address'' (JStr [])) (\<lambda>a.
        bind_exn (py_lower a) (\<lambda>address.
        bind_exn (py_get data ''action'' (JStr ''add'')) (\<lambda>action.
          if address = [] \<or> \<not> startswith address ''0x''
          then Inl (ValueError ''Invalid address'')
          else if \<not> up then Inl (ValueError ''Database connection failed'')
          else if action = JStr ''add''
          then Inr (Response 200 (JObj [(''success'', JBool True)]),
                    upsert_permanent_verified (map lower_char address) now db_now db)
          else if action = JStr ''list''
          then Inr (Response 200 (JObj
                      [(''success'', JBool True),
                       (''count'', JNum (int (length (select_permanent_verified db)))),
                       (''addresses'',
                        JList (map (\<lambda>r. JObj [(''address'', JStr (pv_address r)),
                                              (''verified_at'', nullable_timestamp (verified_at r))])
                                   (select_permanent_verified db)))]),
                    db)
          else Inr (NoResponse, db)))))
      of Inl e \<Rightarrow> (Response 500 (failure_body e), db)
       | Inr r \<Rightarrow> r)"

subsection \<open>\<^verbatim>\<open>/api/auto-claim-schedule\<close>\<close>

text \<open>\<open>now1\<close> and \<open>now2\<close> are the two readings of \<^verbatim>\<open>datetime.now()\<close>, in the order
  the parameter tuple makes them.\<close>

definition post_auto_claim_schedule ::
  "body \<Rightarrow> timestamp \<Rightarrow> timestamp \<Rightarrow> bool \<Rightarrow> store \<Rightarrow> response \<times> store" where
  "post_auto_claim_schedule b now1 now2 up db =
     (case
        bind_exn (json_loads b) (\<lambda>data.
        bind_exn (py_get data ''address'' (JStr [])) (\<lambda>a.
        bind_exn (py_lower a) (\<lambda>address.
        bind_exn (py_get data ''network'' (JStr ''celo'')) (\<lambda>n.
        bind_exn (py_lower n) (\<lambda>network.
          if address = [] \<or> \<not> startswith address ''0x''
          then Inl (ValueError ''Invalid address'')
          else if network \<notin> set [''celo'', ''fuse'']
          then Inl (ValueError ''Network must be celo or fuse'')
          else Inr (Response 200 (JObj [(''success'', JBool True)]),
                    if up
                    then upsert_auto_claim_schedule (map lower_char address) network True now1
                           (now2 + timedelta 1 0 12) db
                    else db))))))
      of Inl e \<Rightarrow> (Response 500 (failure_body e), db)
       | Inr r \<Rightarrow> r)"

subsection \<open>\<^verbatim>\<open>/api/save-keys\<close>\<close>

text \<open>
  The loop over \<^verbatim>\<open>keys\<close>. A falsy key is passed over; \<^verbatim>\<open>len(key)\<close> of a number or
  of \<^verbatim>\<open>True\<close> raises and leaves the loop; a \<^verbatim>\<open>sqlite3.Error\<close> of one insert is printed
  and the loop goes on.
\<close>

fun save_keys_loop ::
  "json \<Rightarrow> json \<Rightarrow> json \<Rightarrow> timestamp \<Rightarrow> json list \<Rightarrow> store \<Rightarrow> nat \<Rightarrow> exn + store \<times> nat" where
  "save_keys_loop src dev st db_now [] db saved_count = Inr (db, saved_count)"
| "save_keys_loop src dev st db_now (key # keys) db saved_count =
     (if truthy key then
        (case py_len key of
           Inl e \<Rightarrow> Inl e
         | Inr n \<Rightarrow>
             if n > 0 then
               (case insert_or_ignore_secret_key key src dev st db_now db of
                  Inl err \<Rightarrow> save_keys_loop src dev st db_now keys db saved_count
                | Inr (db', rowcount) \<Rightarrow>
                    save_keys_loop src dev st db_now keys db'
                      (if rowcount > 0 then saved_count + 1 else saved_count))
             else save_keys_loop src dev st db_now keys db saved_count)
      else save_keys_loop src dev st db_now keys db saved_count)"

fun isinstance_list :: "json \<Rightarrow> bool" where
  "isinstance_list (JList xs) = True"
| "isinstance_list v = False"

fun items :: "json \<Rightarrow> json list" where
  "items (JList xs) = xs"
| "items v = []"

definition post_save_keys :: "body \<Rightarrow> timestamp \<Rightarrow> bool \<Rightarrow> store \<Rightarrow> response \<times> store" where
  "post_save_keys b db_now up db =
     (case
        bind_exn (json_loads b) (\<lambda>data.
        bind_exn (py_get data ''keys'' (JList [])) (\<lambda>keys.
        bind_exn (py_get data ''source'' (JStr ''batch-claim'')) (\<lambda>src.
        bind_exn (py_get data ''device'' (JStr ''Unknown Device'')) (\<lambda>dev.
        bind_exn (py_get data ''status'' (JStr ''success'')) (\<lambda>st.
          if \<not> truthy keys \<or> \<not> isinstance_list keys
          then Inr (Response 400 (JObj [(''error'', JStr ''Invalid keys format'')]), db)
          else if \<not> up
          then Inr (Response 500 (JObj [(''error'', JStr ''Database connection failed'')]), db)
          else
            (case save_keys_loop src dev st db_now (items keys) db 0 of
               Inl e \<Rightarrow> Inr (Response 500 (error_body e), db)
             | Inr (db', saved_count) \<Rightarrow>
                 Inr (Response 200 (JObj [(''success'', JBool True),
                                          (''saved'', JNum (int saved_count))]), db')))))))
      of Inl e \<Rightarrow> (Response 500 (error_body e), db)
       | Inr r \<Rightarrow> r)"

subsection \<open>\<^verbatim>\<open>/api/fetch-keys\<close>\<close>

definition key_entry :: "secret_key \<Rightarrow> json" where
  "key_entry row =
     JObj [(''key'', private_key row),
           (''added'', (case created_at row of None \<Rightarrow> JStr [] | Some t \<Rightarrow> JNum t)),
           (''source'', source row),
           (''device'', device row),
           (''status'', status row)]"

definition post_fetch_keys ::
  "(string \<Rightarrow> string) \<Rightarrow> body \<Rightarrow> bool \<Rightarrow> store \<Rightarrow> response \<times> store" where
  "post_fetch_keys sha256_hex b up db =
     (case
        bind_exn (json_loads b) (\<lambda>data.
        bind_exn (py_get data ''password'' (JStr [])) (\<lambda>password.
        bind_exn (validate_password sha256_hex password) (\<lambda>valid.
          if \<not> valid
          then Inr (Response 401 (JObj [(''error'', JStr ''Invalid password'')]), db)
          else if \<not> up
          then Inr (Response 200 (JObj [(''keys'', JList [])]), db)
          else Inr (Response 200 (JObj [(''keys'', JList (map key_entry (select_secret_keys db)))]),
                    db))))
      of Inl e \<Rightarrow> (Response 500 (error_body e), db)
       | Inr r \<Rightarrow> r)"

subsection \<open>\<^verbatim>\<open>/api/clear-keys\<close>\<close>

definition post_clear_keys ::
  "(string \<Rightarrow> string) \<Rightarrow> body \<Rightarrow> bool \<Rightarrow> store \<Rightarrow> response \<times> store" where
  "post_clear_keys sha256_hex b up db =
     (case
        bind_exn (json_loads b) (\<lambda>data.
        bind_exn (py_get data ''password'' (JStr [])) (\<lambda>password.
        bind_exn (validate_password sha256_hex password) (\<lambda>valid.
          if \<not> valid
          then Inr (Response 401 (JObj [(''error'', JStr ''Invalid password'')]), db)
          else if \<not> up
          then Inr (Response 500 (JObj [(''error'', JStr ''Database connection failed'')]), db)
          else
            (case delete_secret_keys db of
               (db', deleted_count) \<Rightarrow>
                 Inr (Response 200 (JObj [(''success'', JBool True),
                                          (''deleted'', JNum (int deleted_count))]), db')))))
      of Inl e \<Rightarrow> (Response 500 (error_body e), db)
       | Inr r \<Rightarrow> r)"

subsection \<open>\<^verbatim>\<open>/api/check-key-status\<close>\<close>

definition post_check_key_status :: "body \<Rightarrow> bool \<Rightarrow> store \<Rightarrow> response \<times> store" where
  "post_check_key_status b up db =
     (case
        bind_exn (json_loads b) (\<lambda>data.
        bind_exn (py_get data ''address'' (JStr [])) (\<lambda>a.
        bind_exn (py_lower a) (\<lambda>address.
          if address = []
          then Inr (Response 400 (JObj [(''error'', JStr ''Address required'')]), db)
          else if \<not> up
          then Inr (Response 500 (JObj [(''error'', JStr ''DB Error'')]), db)
          else Inr (Response 200 (JObj [(''disabled'', JBool (select_disabled_key address db \<noteq> None)),
                                        (''address'', JStr address)]), db))))
      of Inl e \<Rightarrow> (Response 500 (error_body e), db)
       | Inr r \<Rightarrow> r)"

subsection \<open>\<^verbatim>\<open>/api/toggle-key-status\<close>\<close>

definition post_toggle_key_status :: "body \<Rightarrow> bool \<Rightarrow> store \<Rightarrow> response \<times> store" where
  "post_toggle_key_status b up db =
     (case
        bind_exn (json_loads b) (\<lambda>data.
        bind_exn (py_get data ''address'' (JStr [])) (\<lambda>a.
        bind_exn (py_lower a) (\<lambda>address.
        bind_exn (py_get data ''action'' (JStr [])) (\<lambda>act.
        bind_exn (py_lower act) (\<lambda>action.
          if address = [] \<or> action \<notin> set [''enable'', ''disable'']
          then Inr (Response 400 (JObj [(''error'', JStr ''Address and action required'')]), db)
          else if \<not> up
          then Inr (Response 500 (JObj [(''error'', JStr ''DB Error'')]), db)
          else if action = ''disable''
          then Inr (Response 200 (JObj [(''success'', JBool True), (''status'', JStr ''disabled''),
                                        (''address'', JStr address)]),
                    insert_disabled_key address ''Disabled by user'' db)
          else Inr (Response 200 (JObj [(''success'', JBool True), (''status'', JStr ''enabled''),
                                        (''address'', JStr address)]),
                    delete_disabled_key address db))))))
      of Inl e \<Rightarrow> (Response 500 (error_body e), db)
       | Inr r \<Rightarrow> r)"

section \<open>Properties of stores and runs of requests\<close>

text \<open>The sequence behind \<^verbatim>\<open>id SERIAL\<close> is ahead of every id in \<^verbatim>\<open>secret_keys\<close>, as it
  is when all rows got their id from the sequence.\<close>

definition ids_below_seq :: "store \<Rightarrow> bool" where
  "ids_below_seq db = list_all (\<lambda>r. sk_id r < secret_keys_id_seq db) (secret_keys db)"

text \<open>Requests to \<^verbatim>\<open>/api/permanent-verified\<close> served one after the other; each comes with
  the clock readings of its time and with whether the store can be reached then.\<close>

fun serve_permanent_verified ::
  "(body \<times> timestamp \<times> timestamp \<times> bool) list \<Rightarrow> store \<Rightarrow> store" where
  "serve_permanent_verified [] db = db"
| "serve_permanent_verified ((b, now, db_now, up) # calls) db =
     serve_permanent_verified calls (snd (post_permanent_verified b now db_now up db))"

section \<open>The gated operations: bulk retrieval and purge\<close>

text \<open>
  Claim C3 (degraded read). When the password in the request is accepted by the gate and
  \<^verbatim>\<open>get_db_connection()\<close> yields no connection, \<^verbatim>\<open>/api/fetch-keys\<close> answers with
  status 200 and the body \<^verbatim>\<open>{'keys': []}\<close>, an empty sequence of credentials and not an
  error; the store is as it was. This holds for every hash function.
\<close>

theorem fetch_keys_degraded_read:
  assumes "py_get data ''password'' (JStr []) = Inr password"
    and "validate_password sha256_hex password = Inr True"
  shows "post_fetch_keys sha256_hex (Parsed data) False db
           = (Response 200 (JObj [(''keys'', JList [])]), db)"
  using assms by (simp add: post_fetch_keys_def json_loads_def bind_exn_def)

theorem fetch_keys_degraded_read_witness:
  "py_get (JObj [(''password'', JStr ''963050'')]) ''password'' (JStr []) = Inr (JStr ''963050'')
   \<and> validate_password (\<lambda>s. s) (JStr ''963050'') = Inr True
   \<and> post_fetch_keys (\<lambda>s. s) (Parsed (JObj [(''password'', JStr ''963050'')])) False empty_store
       = (Response 200 (JObj [(''keys'', JList [])]), empty_store)"
  using fetch_keys_degraded_read
          [of "JObj [(''password'', JStr ''963050'')]" "JStr ''963050''" "\<lambda>s. s" empty_store]
  by (simp add: py_get_def validate_password_def MASTER_PASSWORD_def)

text \<open>
  Claim C4 (gate failure). When the password in the request is a string that the gate
  rejects, \<^verbatim>\<open>/api/fetch-keys\<close> and \<^verbatim>\<open>/api/clear-keys\<close> both answer 401 with
  \<^verbatim>\<open>{'error': 'Invalid password'}\<close>. The answer is the same whether or not the store
  can be reached and whatever it holds (\<open>up\<close> and \<open>db\<close> are arbitrary), so the store
  is not consulted, and the store left behind is the store given.
\<close>

theorem gate_failure_unauthorized:
  assumes "py_get data ''password'' (JStr []) = Inr password"
    and "validate_password sha256_hex password = Inr False"
  shows "post_fetch_keys sha256_hex (Parsed data) up db
           = (Response 401 (JObj [(''error'', JStr ''Invalid password'')]), db)
       \<and> post_clear_keys sha256_hex (Parsed data) up db
           = (Response 401 (JObj [(''error'', JStr ''Invalid password'')]), db)"
  using assms
  by (simp add: post_fetch_keys_def post_clear_keys_def json_loads_def bind_exn_def)

theorem gate_failure_unauthorized_witness:
  "py_get (JObj [(''password'', JStr ''letmein'')]) ''password'' (JStr []) = Inr (JStr ''letmein'')
   \<and> validate_password (\<lambda>s. s) (JStr ''letmein'') = Inr False
   \<and> post_fetch_keys (\<lambda>s. s) (Parsed (JObj [(''password'', JStr ''letmein'')])) True
        (empty_store\<lparr>secret_keys :=
           [\<lparr>sk_id = 1, private_key = JStr ''k1'', source = JStr ''batch-claim'',
             device = JStr ''phone'', status = JStr ''success'', created_at = Some 7\<rparr>]\<rparr>)
       = (Response 401 (JObj [(''error'', JStr ''Invalid password'')]),
          empty_store\<lparr>secret_keys :=
           [\<lparr>sk_id = 1, private_key = JStr ''k1'', source = JStr ''batch-claim'',
             device = JStr ''phone'', status = JStr ''success'', created_at = Some 7\<rparr>]\<rparr>)
   \<and> post_clear_keys (\<lambda>s. s) (Parsed (JObj [(''password'', JStr ''letmein'')])) True
        (empty_store\<lparr>secret_keys :=
           [\<lparr>sk_id = 1, private_key = JStr ''k1'', source = JStr ''batch-claim'',
             device = JStr ''phone'', status = JStr ''success'', created_at = Some 7\<rparr>]\<rparr>)
       = (Response 401 (JObj [(''error'', JStr ''Invalid password'')]),
          empty_store\<lparr>secret_keys :=
           [\<lparr>sk_id = 1, private_key = JStr ''k1'', source = JStr ''batch-claim'',
             device = JStr ''phone'', status = JStr ''success'', created_at = Some 7\<rparr>]\<rparr>)"
  using gate_failure_unauthorized
          [of "JObj [(''password'', JStr ''letmein'')]" "JStr ''letmein''" "\<lambda>s. s" True
              "empty_store\<lparr>secret_keys :=
                 [\<lparr>sk_id = 1, private_key = JStr ''k1'', source = JStr ''batch-claim'',
                   device = JStr ''phone'', status = JStr ''success'', created_at = Some 7\<rparr>]\<rparr>"]
  by (simp add: py_get_def validate_password_def MASTER_PASSWORD_def)

text \<open>
  Claim C5 (purge). Whenever \<^verbatim>\<open>/api/clear-keys\<close> answers 200, whatever the request and
  the store were: the body reports as \<^verbatim>\<open>deleted\<close> the number of rows \<^verbatim>\<open>secret_keys\<close>
  held, the table is empty afterwards, so that number is the number of rows removed, and
  the tables \<^verbatim>\<open>disabled_keys\<close>, \<^verbatim>\<open>permanent_verified\<close>, \<^verbatim>\<open>auto_claim_schedule\<close> and
  \<^verbatim>\<open>app_settings\<close> are as before.
\<close>

theorem clear_keys_purges_only_secret_keys:
  assumes "post_clear_keys sha256_hex b up db = (Response 200 j, db')"
  shows "j = JObj [(''success'', JBool True), (''deleted'', JNum (int (length (secret_keys db))))]
       \<and> secret_keys db' = []
       \<and> length (secret_keys db) - length (secret_keys db') = length (secret_keys db)
       \<and> disabled_keys db' = disabled_keys db
       \<and> permanent_verified db' = permanent_verified db
       \<and> auto_claim_schedule db' = auto_claim_schedule db
       \<and> app_settings db' = app_settings db"
  using assms
  by (auto simp add: post_clear_keys_def json_loads_def bind_exn_def delete_secret_keys_def
      split: body.splits sum.splits if_splits)

theorem clear_keys_purges_only_secret_keys_witness:
  "post_clear_keys (\<lambda>s. s) (Parsed (JObj [(''password'', JStr ''963050'')])) True
      (empty_store\<lparr>secret_keys :=
           [\<lparr>sk_id = 1, private_key = JStr ''k1'', source = JStr ''batch-claim'',
             device = JStr ''phone'', status = JStr ''success'', created_at = Some 7\<rparr>],
         disabled_keys := [\<lparr>key_address = ''0xabc'', reason = Some ''Disabled by user''\<rparr>]\<rparr>)
     = (Response 200 (JObj [(''success'', JBool True), (''deleted'', JNum 1)]),
        empty_store\<lparr>disabled_keys :=
           [\<lparr>key_address = ''0xabc'', reason = Some ''Disabled by user''\<rparr>]\<rparr>)
   \<and> secret_keys (empty_store\<lparr>disabled_keys :=
           [\<lparr>key_address = ''0xabc'', reason = Some ''Disabled by user''\<rparr>]\<rparr>) = []
   \<and> disabled_keys (empty_store\<lparr>disabled_keys :=
           [\<lparr>key_address = ''0xabc'', reason = Some ''Disabled by user''\<rparr>]\<rparr>)
       = [\<lparr>key_address = ''0xabc'', reason = Some ''Disabled by user''\<rparr>]"
  using clear_keys_purges_only_secret_keys
          [of "\<lambda>s. s" "Parsed (JObj [(''password'', JStr ''963050'')])" True
              "empty_store\<lparr>secret_keys :=
                 [\<lparr>sk_id = 1, private_key = JStr ''k1'', source = JStr ''batch-claim'',
                   device = JStr ''phone'', status = JStr ''success'', created_at = Some 7\<rparr>],
               disabled_keys := [\<lparr>key_address = ''0xabc'', reason = Some ''Disabled by user''\<rparr>]\<rparr>"
              "JObj [(''success'', JBool True), (''deleted'', JNum 1)]"
              "empty_store\<lparr>disabled_keys :=
                 [\<lparr>key_address = ''0xabc'', reason = Some ''Disabled by user''\<rparr>]\<rparr>"]
  by (simp add: post_clear_keys_def json_loads_def bind_exn_def py_get_def
      validate_password_def MASTER_PASSWORD_def delete_secret_keys_def empty_store_def)

section \<open>Credential ingest\<close>

lemma insert_or_ignore_fresh:
  assumes "ids_below_seq db" and "bindable src" and "bindable dev" and "bindable st"
  shows "insert_or_ignore_secret_key (JStr k) src dev st t db =
           Inr (db\<lparr>secret_keys_id_seq := Suc (secret_keys_id_seq db),
                   secret_keys := secret_keys db @
                     [\<lparr>sk_id = secret_keys_id_seq db, private_key = JStr k, source = src,
                       device = dev, status = st, created_at = Some t\<rparr>]\<rparr>, 1)"
proof -
  have "secret_keys_id_seq db \<notin> sk_id ` set (secret_keys db)"
    using assms(1) by (auto simp add: ids_below_seq_def list_all_iff)
  then show ?thesis
    using assms(2-4) by (simp add: insert_or_ignore_secret_key_def Let_def)
qed

text \<open>The loop stores every non-empty string it is given, whatever the table holds.\<close>

lemma save_keys_loop_keeps_all:
  assumes "ids_below_seq db" and "bindable src" and "bindable dev" and "bindable st"
    and "[] \<notin> set ks"
  shows "\<exists>db'. save_keys_loop src dev st t (map JStr ks) db n = Inr (db', n + length ks)
           \<and> map private_key (secret_keys db') = map private_key (secret_keys db) @ map JStr ks
           \<and> ids_below_seq db'"
  using assms
proof (induction ks arbitrary: db n)
  case Nil
  then show ?case by simp
next
  case (Cons k ks)
  let ?db = "db\<lparr>secret_keys_id_seq := Suc (secret_keys_id_seq db),
                   secret_keys := secret_keys db @
                     [\<lparr>sk_id = secret_keys_id_seq db, private_key = JStr k, source = src,
                       device = dev, status = st, created_at = Some t\<rparr>]\<rparr>"
  have k: "k \<noteq> []" and ks: "[] \<notin> set ks" using Cons.prems(5) by auto
  have ins: "insert_or_ignore_secret_key (JStr k) src dev st t db = Inr (?db, 1)"
    using Cons.prems(1-4) by (rule insert_or_ignore_fresh)
  have inv: "ids_below_seq ?db"
    using Cons.prems(1) by (auto simp add: ids_below_seq_def list_all_iff)
  obtain db' where
    "save_keys_loop src dev st t (map JStr ks) ?db (n + 1) = Inr (db', n + 1 + length ks)"
    "map private_key (secret_keys db') = map private_key (secret_keys ?db) @ map JStr ks"
    "ids_below_seq db'"
    using Cons.IH [OF inv Cons.prems(2-4) ks, of "n + 1"] by blast
  then show ?case using k ins by simp
qed

text \<open>
  Claim C1 (global deduplication) does not hold of the code. The comment above the insert
  says \<^verbatim>\<open>deduplication via UNIQUE constraint\<close> and the statement is
  \<^verbatim>\<open>INSERT OR IGNORE\<close>, but \<^verbatim>\<open>CREATE TABLE secret_keys\<close> declares no uniqueness of
  \<^verbatim>\<open>private_key\<close>, so no insert is ever ignored. What the code does: on a store whose
  id sequence is ahead of its rows, a request with a non-empty list \<open>ks\<close> of non-empty
  strings is answered with \<^verbatim>\<open>saved\<close> equal to the length of \<open>ks\<close>, duplicates counted,
  and every one of the strings is appended to the table.
\<close>

theorem save_keys_counts_every_key:
  assumes "ids_below_seq db" and "ks \<noteq> []" and "[] \<notin> set ks"
  shows "fst (post_save_keys (Parsed (JObj [(''keys'', JList (map JStr ks))])) t True db)
            = Response 200 (JObj [(''success'', JBool True), (''saved'', JNum (int (length ks)))])
       \<and> map private_key
            (secret_keys (snd (post_save_keys (Parsed (JObj [(''keys'', JList (map JStr ks))]))
                                 t True db)))
            = map private_key (secret_keys db) @ map JStr ks"
proof -
  obtain db' where
    "save_keys_loop (JStr ''batch-claim'') (JStr ''Unknown Device'') (JStr ''success'') t
        (map JStr ks) db 0 = Inr (db', 0 + length ks)"
    "map private_key (secret_keys db') = map private_key (secret_keys db) @ map JStr ks"
    using save_keys_loop_keeps_all [OF assms(1) _ _ _ assms(3), of "JStr ''batch-claim''"
       "JStr ''Unknown Device''" "JStr ''success''" t 0]
    by auto
  then show ?thesis
    using assms(2) by (simp add: post_save_keys_def json_loads_def bind_exn_def py_get_def)
qed

text \<open>At the inputs of the claim: \<^verbatim>\<open>["k1","k1","k2"]\<close> on the empty store is answered
  with 3, and \<^verbatim>\<open>["k1"]\<close> sent to a store that already holds \<^verbatim>\<open>k1\<close> with 1.\<close>

theorem save_keys_counts_every_key_witness:
  "ids_below_seq empty_store \<and> [''k1'', ''k1'', ''k2''] \<noteq> [] \<and> [] \<notin> set [''k1'', ''k1'', ''k2'']
   \<and> fst (post_save_keys (Parsed (JObj [(''keys'', JList [JStr ''k1'', JStr ''k1'', JStr ''k2''])]))
            7 True empty_store)
       = Response 200 (JObj [(''success'', JBool True), (''saved'', JNum 3)])
   \<and> map private_key (secret_keys (snd
        (post_save_keys (Parsed (JObj [(''keys'', JList [JStr ''k1'', JStr ''k1'', JStr ''k2''])]))
            7 True empty_store)))
       = [JStr ''k1'', JStr ''k1'', JStr ''k2'']
   \<and> ids_below_seq (empty_store\<lparr>secret_keys_id_seq := 2, secret_keys :=
           [\<lparr>sk_id = 1, private_key = JStr ''k1'', source = JStr ''batch-claim'',
             device = JStr ''Unknown Device'', status = JStr ''success'', created_at = Some 7\<rparr>]\<rparr>)
   \<and> fst (post_save_keys (Parsed (JObj [(''keys'', JList [JStr ''k1''])])) 8 True
        (empty_store\<lparr>secret_keys_id_seq := 2, secret_keys :=
           [\<lparr>sk_id = 1, private_key = JStr ''k1'', source = JStr ''batch-claim'',
             device = JStr ''Unknown Device'', status = JStr ''success'', created_at = Some 7\<rparr>]\<rparr>))
       = Response 200 (JObj [(''success'', JBool True), (''saved'', JNum 1)])"
  using save_keys_counts_every_key [of empty_store "[''k1'', ''k1'', ''k2'']" 7]
    save_keys_counts_every_key
      [of "empty_store\<lparr>secret_keys_id_seq := 2, secret_keys :=
           [\<lparr>sk_id = 1, private_key = JStr ''k1'', source = JStr ''batch-claim'',
             device = JStr ''Unknown Device'', status = JStr ''success'', created_at = Some 7\<rparr>]\<rparr>"
          "[''k1'']" 8]
  by (simp add: ids_below_seq_def empty_store_def)

section \<open>Claim schedule records\<close>

lemma lower_char_idem [simp]: "lower_char (lower_char c) = lower_char c"
  by (simp add: lower_char_def)

lemma lower_char_comp [simp]: "lower_char \<circ> lower_char = lower_char"
  by (rule ext) simp

lemma startswith_nonempty: "startswith s ''0x'' \<Longrightarrow> s \<noteq> []"
  by (auto simp add: startswith_def)

lemma filter_key_single:
  assumes "distinct (map f xs)" and "k \<in> set (map f xs)"
  shows "\<exists>x. filter (\<lambda>r. f r = k) xs = [x] \<and> x \<in> set xs \<and> f x = k"
  using assms
proof (induction xs)
  case Nil
  then show ?case by simp
next
  case (Cons y ys)
  show ?case
  proof (cases "f y = k")
    case True
    then have "k \<notin> set (map f ys)" using Cons.prems(1) by auto
    then have "filter (\<lambda>r. f r = k) ys = []" by (auto simp add: filter_empty_conv)
    then show ?thesis using True by simp
  next
    case False
    then have "k \<in> set (map f ys)" using Cons.prems(2) by auto
    moreover have "distinct (map f ys)" using Cons.prems(1) by simp
    ultimately obtain x where "filter (\<lambda>r. f r = k) ys = [x]" "x \<in> set ys" "f x = k"
      using Cons.IH by blast
    then show ?thesis using False by simp
  qed
qed


lemma sc_key_update [simp]:
  "sc_key (r\<lparr>enabled := e, next_claim_time := t\<rparr>) = sc_key r"
  by (simp add: sc_key_def)




text \<open>A request with a well-formed address and a supported network, both judged after
  lowercasing, is answered 200, and the upsert runs if the store can be reached.\<close>

lemma post_auto_claim_schedule_valid:
  assumes "py_get data ''address'' (JStr []) = Inr (JStr a)"
    and "py_get data ''network'' (JStr ''celo'') = Inr (JStr n)"
    and "startswith (map lower_char a) ''0x''"
    and "map lower_char n \<in> set [''celo'', ''fuse'']"
  shows "post_auto_claim_schedule (Parsed data) now1 now2 up db =
           (Response 200 (JObj [(''success'', JBool True)]),
            if up
            then upsert_auto_claim_schedule (map lower_char a) (map lower_char n) True now1
                   (now2 + timedelta 1 0 12) db
            else db)"
  using assms startswith_nonempty [OF assms(3)]
  by (simp add: post_auto_claim_schedule_def json_loads_def bind_exn_def py_lower_def)

text \<open>
  Claim C2, as amended. The claim says that the upsert sets \<^verbatim>\<open>last_claim\<close> to the
  current time also when the row exists; the \<^verbatim>\<open>DO UPDATE SET\<close> list names only
  \<^verbatim>\<open>enabled\<close> and \<^verbatim>\<open>next_claim_time\<close>. For a request with a well-formed address and a
  supported network, served while the store can be reached: the answer is 200; if the
  table has no row for the (lowercased) pair, one row is appended with \<^verbatim>\<open>enabled\<close> true,
  \<^verbatim>\<open>last_claim\<close> the first clock reading and \<^verbatim>\<open>next_claim_time\<close> the second reading plus
  one day and twelve minutes; if it has one, that row gets the new \<^verbatim>\<open>enabled\<close> and
  \<^verbatim>\<open>next_claim_time\<close>, and its \<^verbatim>\<open>last_claim\<close>, every other row and every other table
  stay as they were.
\<close>

theorem register_schedule_upsert_fields:
  assumes "py_get data ''address'' (JStr []) = Inr (JStr a)"
    and "py_get data ''network'' (JStr ''celo'') = Inr (JStr n)"
    and "startswith (map lower_char a) ''0x''"
    and "map lower_char n \<in> set [''celo'', ''fuse'']"
  shows "fst (post_auto_claim_schedule (Parsed data) now1 now2 True db)
           = Response 200 (JObj [(''success'', JBool True)])
       \<and> ((map lower_char a, map lower_char n) \<notin> set (map sc_key (auto_claim_schedule db)) \<longrightarrow>
            auto_claim_schedule (snd (post_auto_claim_schedule (Parsed data) now1 now2 True db))
              = auto_claim_schedule db
                @ [\<lparr>sc_address = map lower_char a, sc_network = map lower_char n,
                    enabled = Some True, last_claim = Some now1,
                    next_claim_time = Some (now2 + 87120000000)\<rparr>])
       \<and> ((map lower_char a, map lower_char n) \<in> set (map sc_key (auto_claim_schedule db)) \<longrightarrow>
            auto_claim_schedule (snd (post_auto_claim_schedule (Parsed data) now1 now2 True db))
              = map (\<lambda>r. if sc_key r = (map lower_char a, map lower_char n)
                         then r\<lparr>enabled := Some True,
                                next_claim_time := Some (now2 + 87120000000)\<rparr>
                         else r)
                    (auto_claim_schedule db)
            \<and> map last_claim
                 (auto_claim_schedule
                    (snd (post_auto_claim_schedule (Parsed data) now1 now2 True db)))
              = map last_claim (auto_claim_schedule db))
       \<and> secret_keys (snd (post_auto_claim_schedule (Parsed data) now1 now2 True db))
           = secret_keys db
       \<and> app_settings (snd (post_auto_claim_schedule (Parsed data) now1 now2 True db))
           = app_settings db
       \<and> permanent_verified (snd (post_auto_claim_schedule (Parsed data) now1 now2 True db))
           = permanent_verified db
       \<and> disabled_keys (snd (post_auto_claim_schedule (Parsed data) now1 now2 True db))
           = disabled_keys db"
proof -
  have "map last_claim
          (map (\<lambda>r. if sc_key r = (map lower_char a, map lower_char n)
                     then r\<lparr>enabled := Some True,
                            next_claim_time := Some (now2 + 87120000000)\<rparr>
                     else r)
               (auto_claim_schedule db))
        = map last_claim (auto_claim_schedule db)"
    by (simp add: comp_def if_distrib [of last_claim] cong: if_cong)
  then show ?thesis
    by (simp add: post_auto_claim_schedule_valid [OF assms] upsert_auto_claim_schedule_def
        timedelta_def)
qed

text \<open>The claim as stated fails on a row that exists: registered at time 100, its
  \<^verbatim>\<open>last_claim\<close> is still 5.\<close>

theorem register_schedule_last_claim_counterexample:
  "map last_claim
     (auto_claim_schedule
        (snd (post_auto_claim_schedule
                (Parsed (JObj [(''address'', JStr ''0xabc''), (''network'', JStr ''celo'')]))
                100 100 True
                (empty_store\<lparr>auto_claim_schedule :=
                   [\<lparr>sc_address = ''0xabc'', sc_network = ''celo'', enabled = Some False,
                     last_claim = Some 5, next_claim_time = Some 10\<rparr>]\<rparr>))))
     = [Some 5]
   \<and> map last_claim
     (auto_claim_schedule
        (snd (post_auto_claim_schedule
                (Parsed (JObj [(''address'', JStr ''0xabc''), (''network'', JStr ''celo'')]))
                100 100 True
                (empty_store\<lparr>auto_claim_schedule :=
                   [\<lparr>sc_address = ''0xabc'', sc_network = ''celo'', enabled = Some False,
                     last_claim = Some 5, next_claim_time = Some 10\<rparr>]\<rparr>))))
     \<noteq> [Some 100]"
  by code_simp

text \<open>The value of \<open>lower_char\<close> on letters and digits, for evaluating the handlers on
  concrete requests.\<close>

lemma lower_samples:
  "lower_char CHR ''A'' = CHR ''a''"
  "lower_char CHR ''B'' = CHR ''b''"
  "lower_char CHR ''C'' = CHR ''c''"
  "lower_char CHR ''D'' = CHR ''d''"
  "lower_char CHR ''E'' = CHR ''e''"
  "lower_char CHR ''F'' = CHR ''f''"
  "lower_char CHR ''G'' = CHR ''g''"
  "lower_char CHR ''H'' = CHR ''h''"
  "lower_char CHR ''I'' = CHR ''i''"
  "lower_char CHR ''J'' = CHR ''j''"
  "lower_char CHR ''K'' = CHR ''k''"
  "lower_char CHR ''L'' = CHR ''l''"
  "lower_char CHR ''M'' = CHR ''m''"
  "lower_char CHR ''N'' = CHR ''n''"
  "lower_char CHR ''O'' = CHR ''o''"
  "lower_char CHR ''P'' = CHR ''p''"
  "lower_char CHR ''Q'' = CHR ''q''"
  "lower_char CHR ''R'' = CHR ''r''"
  "lower_char CHR ''S'' = CHR ''s''"
  "lower_char CHR ''T'' = CHR ''t''"
  "lower_char CHR ''U'' = CHR ''u''"
  "lower_char CHR ''V'' = CHR ''v''"
  "lower_char CHR ''W'' = CHR ''w''"
  "lower_char CHR ''X'' = CHR ''x''"
  "lower_char CHR ''Y'' = CHR ''y''"
  "lower_char CHR ''Z'' = CHR ''z''"
  "lower_char CHR ''a'' = CHR ''a''"
  "lower_char CHR ''b'' = CHR ''b''"
  "lower_char CHR ''c'' = CHR ''c''"
  "lower_char CHR ''d'' = CHR ''d''"
  "lower_char CHR ''e'' = CHR ''e''"
  "lower_char CHR ''f'' = CHR ''f''"
  "lower_char CHR ''g'' = CHR ''g''"
  "lower_char CHR ''h'' = CHR ''h''"
  "lower_char CHR ''i'' = CHR ''i''"
  "lower_char CHR ''j'' = CHR ''j''"
  "lower_char CHR ''k'' = CHR ''k''"
  "lower_char CHR ''l'' = CHR ''l''"
  "lower_char CHR ''m'' = CHR ''m''"
  "lower_char CHR ''n'' = CHR ''n''"
  "lower_char CHR ''o'' = CHR ''o''"
  "lower_char CHR ''p'' = CHR ''p''"
  "lower_char CHR ''q'' = CHR ''q''"
  "lower_char CHR ''r'' = CHR ''r''"
  "lower_char CHR ''s'' = CHR ''s''"
  "lower_char CHR ''t'' = CHR ''t''"
  "lower_char CHR ''u'' = CHR ''u''"
  "lower_char CHR ''v'' = CHR ''v''"
  "lower_char CHR ''w'' = CHR ''w''"
  "lower_char CHR ''x'' = CHR ''x''"
  "lower_char CHR ''y'' = CHR ''y''"
  "lower_char CHR ''z'' = CHR ''z''"
  "lower_char CHR ''0'' = CHR ''0''"
  "lower_char CHR ''1'' = CHR ''1''"
  "lower_char CHR ''2'' = CHR ''2''"
  "lower_char CHR ''3'' = CHR ''3''"
  "lower_char CHR ''4'' = CHR ''4''"
  "lower_char CHR ''5'' = CHR ''5''"
  "lower_char CHR ''6'' = CHR ''6''"
  "lower_char CHR ''7'' = CHR ''7''"
  "lower_char CHR ''8'' = CHR ''8''"
  "lower_char CHR ''9'' = CHR ''9''"
  by code_simp+

theorem register_schedule_upsert_fields_witness:
  "startswith (map lower_char ''0xABC'') ''0x''
   \<and> map lower_char ''CELO'' \<in> set [''celo'', ''fuse'']
   \<and> auto_claim_schedule (snd (post_auto_claim_schedule
        (Parsed (JObj [(''address'', JStr ''0xABC''), (''network'', JStr ''CELO'')]))
        100 101 True
        (empty_store\<lparr>auto_claim_schedule :=
           [\<lparr>sc_address = ''0xabc'', sc_network = ''celo'', enabled = Some False,
             last_claim = Some 5, next_claim_time = Some 10\<rparr>,
            \<lparr>sc_address = ''0xabc'', sc_network = ''fuse'', enabled = Some False,
             last_claim = Some 6, next_claim_time = Some 11\<rparr>]\<rparr>)))
       = [\<lparr>sc_address = ''0xabc'', sc_network = ''celo'', enabled = Some True,
           last_claim = Some 5, next_claim_time = Some 87120000101\<rparr>,
          \<lparr>sc_address = ''0xabc'', sc_network = ''fuse'', enabled = Some False,
           last_claim = Some 6, next_claim_time = Some 11\<rparr>]
   \<and> auto_claim_schedule (snd (post_auto_claim_schedule
        (Parsed (JObj [(''address'', JStr ''0xABC''), (''network'', JStr ''CELO'')]))
        100 101 True empty_store))
       = [\<lparr>sc_address = ''0xabc'', sc_network = ''celo'', enabled = Some True,
           last_claim = Some 100, next_claim_time = Some 87120000101\<rparr>]"
  using register_schedule_upsert_fields
          [of "JObj [(''address'', JStr ''0xABC''), (''network'', JStr ''CELO'')]"
              "''0xABC''" "''CELO''" 100 101
              "empty_store\<lparr>auto_claim_schedule :=
                 [\<lparr>sc_address = ''0xabc'', sc_network = ''celo'', enabled = Some False,
                   last_claim = Some 5, next_claim_time = Some 10\<rparr>,
                  \<lparr>sc_address = ''0xabc'', sc_network = ''fuse'', enabled = Some False,
                   last_claim = Some 6, next_claim_time = Some 11\<rparr>]\<rparr>"]
        register_schedule_upsert_fields
          [of "JObj [(''address'', JStr ''0xABC''), (''network'', JStr ''CELO'')]"
              "''0xABC''" "''CELO''" 100 101 empty_store]
  by (simp add: lower_samples startswith_def py_get_def sc_key_def empty_store_def)




text \<open>The handler on a request that is a dictionary, branch by branch.\<close>

lemma post_auto_claim_schedule_cases:
  assumes "py_get data ''address'' (JStr []) = Inr av"
    and "py_get data ''network'' (JStr ''celo'') = Inr nv"
  shows "post_auto_claim_schedule (Parsed data) now1 now2 up db =
     (case py_lower av of
        Inl e \<Rightarrow> (Response 500 (failure_body e), db)
      | Inr address \<Rightarrow>
          (case py_lower nv of
             Inl e \<Rightarrow> (Response 500 (failure_body e), db)
           | Inr network \<Rightarrow>
               if address = [] \<or> \<not> startswith address ''0x''
               then (Response 500 (failure_body (ValueError ''Invalid address'')), db)
               else if network \<notin> set [''celo'', ''fuse'']
               then (Response 500 (failure_body (ValueError ''Network must be celo or fuse'')), db)
               else (Response 200 (JObj [(''success'', JBool True)]),
                     if up
                     then upsert_auto_claim_schedule (map lower_char address) network True
                            now1 (now2 + timedelta 1 0 12) db
                     else db)))"
  using assms
  by (simp add: post_auto_claim_schedule_def json_loads_def bind_exn_def py_lower_def
      split: sum.splits json.splits)

text \<open>
  Claim C7, as amended. The network is lowercased before it is looked up in
  \<^verbatim>\<open>['celo', 'fuse']\<close>, so a name that is not in the list as sent can still be accepted.
  What holds: when the \<^verbatim>\<open>network\<close> of the request, lowercased, is neither \<^verbatim>\<open>celo\<close> nor
  \<^verbatim>\<open>fuse\<close> (or is not a string at all), the answer is 500 with \<^verbatim>\<open>success\<close> false, the
  same for every store, reachable or not, and the store is left as it was; with a
  well-formed address the error text is \<^verbatim>\<open>Network must be celo or fuse\<close>.
\<close>

theorem register_schedule_rejects_unknown_network:
  assumes "py_get data ''network'' (JStr ''celo'') = Inr nv"
    and "py_lower nv \<noteq> Inr ''celo''" and "py_lower nv \<noteq> Inr ''fuse''"
  shows "snd (post_auto_claim_schedule (Parsed data) now1 now2 up db) = db
       \<and> (\<exists>e. fst (post_auto_claim_schedule (Parsed data) now1 now2 up db)
                 = Response 500 (failure_body e))
       \<and> (nv = JStr n \<and> py_get data ''address'' (JStr []) = Inr (JStr a)
            \<and> startswith (map lower_char a) ''0x'' \<longrightarrow>
          fst (post_auto_claim_schedule (Parsed data) now1 now2 up db)
            = Response 500 (JObj [(''success'', JBool False),
                                  (''error'', JStr ''Network must be celo or fuse'')]))"
proof -
  obtain kvs where data: "data = JObj kvs"
    using assms(1) by (cases data) (simp_all add: py_get_def)
  obtain av where av: "py_get data ''address'' (JStr []) = Inr av"
    by (simp add: data py_get_def)
  note eq = post_auto_claim_schedule_cases [OF av assms(1), of now1 now2 up db]
  have unchanged: "snd (post_auto_claim_schedule (Parsed data) now1 now2 up db) = db"
    using assms(2,3) unfolding eq by (simp split: sum.splits)
  have failed: "\<exists>e. fst (post_auto_claim_schedule (Parsed data) now1 now2 up db)
                  = Response 500 (failure_body e)"
    using assms(2,3) unfolding eq by (auto split: sum.splits)
  have msg: "fst (post_auto_claim_schedule (Parsed data) now1 now2 up db)
            = Response 500 (JObj [(''success'', JBool False),
                                  (''error'', JStr ''Network must be celo or fuse'')])"
    if "nv = JStr n" "py_get data ''address'' (JStr []) = Inr (JStr a)"
       "startswith (map lower_char a) ''0x''"
  proof -
    have "av = JStr a" using av that(2) by simp
    then show ?thesis
      using assms(2,3) that(1,3) startswith_nonempty [OF that(3)] unfolding eq
      by (simp add: py_lower_def failure_body_def)
  qed
  show ?thesis using unchanged failed msg by blast
qed

theorem register_schedule_rejects_unknown_network_witness:
  "py_get (JObj [(''address'', JStr ''0xabc''), (''network'', JStr ''ethereum'')])
      ''network'' (JStr ''celo'') = Inr (JStr ''ethereum'')
   \<and> py_lower (JStr ''ethereum'') \<noteq> Inr ''celo''
   \<and> py_lower (JStr ''ethereum'') \<noteq> Inr ''fuse''
   \<and> post_auto_claim_schedule
        (Parsed (JObj [(''address'', JStr ''0xabc''), (''network'', JStr ''ethereum'')]))
        100 101 True empty_store
       = (Response 500 (JObj [(''success'', JBool False),
                              (''error'', JStr ''Network must be celo or fuse'')]),
          empty_store)"
  using register_schedule_rejects_unknown_network
          [of "JObj [(''address'', JStr ''0xabc''), (''network'', JStr ''ethereum'')]"
              "JStr ''ethereum''" 100 101 True empty_store "''ethereum''" "''0xabc''"]
  by (simp add: lower_samples startswith_def py_get_def py_lower_def prod_eq_iff)

text \<open>The claim as stated fails for a supported network written in capitals: \<^verbatim>\<open>CELO\<close> is
  not in the list, and the call succeeds and creates the row.\<close>

theorem register_schedule_network_counterexample:
  "''CELO'' \<notin> set [''celo'', ''fuse'']
   \<and> post_auto_claim_schedule
        (Parsed (JObj [(''address'', JStr ''0xabc''), (''network'', JStr ''CELO'')]))
        100 101 True empty_store
       = (Response 200 (JObj [(''success'', JBool True)]),
          empty_store\<lparr>auto_claim_schedule :=
            [\<lparr>sc_address = ''0xabc'', sc_network = ''celo'', enabled = Some True,
              last_claim = Some 100, next_claim_time = Some 87120000101\<rparr>]\<rparr>)"
  by code_simp

section \<open>Status toggle and query\<close>

lemma select_disabled_key_iff:
  "select_disabled_key a db \<noteq> None \<longleftrightarrow> a \<in> set (map key_address (disabled_keys db))"
  by (auto simp add: select_disabled_key_def find_None_iff)

lemma post_check_key_status_nonempty:
  assumes "py_get data ''address'' (JStr []) = Inr (JStr a)" and "a \<noteq> []"
  shows "post_check_key_status (Parsed data) True db =
           (Response 200
              (JObj [(''disabled'',
                      JBool (map lower_char a \<in> set (map key_address (disabled_keys db)))),
                     (''address'', JStr (map lower_char a))]),
            db)"
  using assms select_disabled_key_iff [of "map lower_char a" db]
  by (simp add: post_check_key_status_def json_loads_def bind_exn_def py_lower_def)

lemma post_toggle_key_status_disable:
  assumes "a \<noteq> []"
  shows "post_toggle_key_status
           (Parsed (JObj [(''address'', JStr a), (''action'', JStr ''disable'')])) True db =
           (Response 200 (JObj [(''success'', JBool True), (''status'', JStr ''disabled''),
                                (''address'', JStr (map lower_char a))]),
            insert_disabled_key (map lower_char a) ''Disabled by user'' db)"
  using assms
  by (simp add: post_toggle_key_status_def json_loads_def bind_exn_def py_lower_def py_get_def
      lower_samples)

lemma post_toggle_key_status_enable:
  assumes "a \<noteq> []"
  shows "post_toggle_key_status
           (Parsed (JObj [(''address'', JStr a), (''action'', JStr ''enable'')])) True db =
           (Response 200 (JObj [(''success'', JBool True), (''status'', JStr ''enabled''),
                                (''address'', JStr (map lower_char a))]),
            delete_disabled_key (map lower_char a) db)"
  using assms
  by (simp add: post_toggle_key_status_def json_loads_def bind_exn_def py_lower_def py_get_def
      lower_samples)

text \<open>Both handlers refuse a request without an address, before they turn to the store.\<close>

lemma empty_address_refused:
  assumes "py_get data ''address'' (JStr []) = Inr (JStr [])"
    and "py_get data ''action'' (JStr []) = Inr (JStr act)"
  shows "post_check_key_status (Parsed data) up db
           = (Response 400 (JObj [(''error'', JStr ''Address required'')]), db)"
    and "post_toggle_key_status (Parsed data) up db
           = (Response 400 (JObj [(''error'', JStr ''Address and action required'')]), db)"
  using assms
  by (simp_all add: post_check_key_status_def post_toggle_key_status_def json_loads_def
      bind_exn_def py_lower_def)

text \<open>
  Claim C8 (disable/enable round trip). For every non-empty address and a store that can be
  reached: after \<^verbatim>\<open>disable\<close>, \<^verbatim>\<open>/api/check-key-status\<close> reports \<^verbatim>\<open>disabled\<close> true; after
  \<^verbatim>\<open>enable\<close> it reports false; \<^verbatim>\<open>disable\<close> of an address that has a marker answers 200 and
  leaves the store as it was; \<^verbatim>\<open>enable\<close> of an address that has none answers 200 and
  leaves the store as it was. (An empty address is refused by both handlers with 400.)
\<close>

theorem disable_enable_round_trip:
  assumes "a \<noteq> []"
  shows "fst (post_check_key_status (Parsed (JObj [(''address'', JStr a)])) True
            (snd (post_toggle_key_status
                    (Parsed (JObj [(''address'', JStr a), (''action'', JStr ''disable'')]))
                    True db)))
           = Response 200 (JObj [(''disabled'', JBool True),
                                 (''address'', JStr (map lower_char a))])
       \<and> fst (post_check_key_status (Parsed (JObj [(''address'', JStr a)])) True
            (snd (post_toggle_key_status
                    (Parsed (JObj [(''address'', JStr a), (''action'', JStr ''enable'')]))
                    True db)))
           = Response 200 (JObj [(''disabled'', JBool False),
                                 (''address'', JStr (map lower_char a))])
       \<and> (map lower_char a \<in> set (map key_address (disabled_keys db)) \<longrightarrow>
            post_toggle_key_status
              (Parsed (JObj [(''address'', JStr a), (''action'', JStr ''disable'')])) True db
            = (Response 200 (JObj [(''success'', JBool True), (''status'', JStr ''disabled''),
                                   (''address'', JStr (map lower_char a))]), db))
       \<and> (map lower_char a \<notin> set (map key_address (disabled_keys db)) \<longrightarrow>
            post_toggle_key_status
              (Parsed (JObj [(''address'', JStr a), (''action'', JStr ''enable'')])) True db
            = (Response 200 (JObj [(''success'', JBool True), (''status'', JStr ''enabled''),
                                   (''address'', JStr (map lower_char a))]), db))"
proof -
  have get: "py_get (JObj [(''address'', JStr a)]) ''address'' (JStr []) = Inr (JStr a)"
    by (simp add: py_get_def)
  have after_disable:
    "map lower_char a
       \<in> set (map key_address
                (disabled_keys (insert_disabled_key (map lower_char a) ''Disabled by user'' db)))"
    by (simp add: insert_disabled_key_def)
  have after_enable:
    "map lower_char a
       \<notin> set (map key_address (disabled_keys (delete_disabled_key (map lower_char a) db)))"
    by (auto simp add: delete_disabled_key_def)
  have noop_disable:
    "insert_disabled_key (map lower_char a) ''Disabled by user'' db = db"
    if "map lower_char a \<in> set (map key_address (disabled_keys db))"
    using that by (simp add: insert_disabled_key_def)
  have "filter (\<lambda>r. key_address r \<noteq> map lower_char a) (disabled_keys db) = disabled_keys db"
    if "map lower_char a \<notin> set (map key_address (disabled_keys db))"
    using that by (force simp add: filter_id_conv)
  then have noop_enable: "delete_disabled_key (map lower_char a) db = db"
    if "map lower_char a \<notin> set (map key_address (disabled_keys db))"
    using that by (simp add: delete_disabled_key_def)
  show ?thesis
    using after_disable after_enable noop_disable noop_enable
    by (simp add: post_check_key_status_nonempty [OF get assms]
        post_toggle_key_status_disable [OF assms] post_toggle_key_status_enable [OF assms])
qed

theorem disable_enable_round_trip_witness:
  "''0xABC'' \<noteq> []
   \<and> fst (post_check_key_status (Parsed (JObj [(''address'', JStr ''0xABC'')])) True
        (snd (post_toggle_key_status
                (Parsed (JObj [(''address'', JStr ''0xABC''), (''action'', JStr ''disable'')]))
                True empty_store)))
       = Response 200 (JObj [(''disabled'', JBool True), (''address'', JStr ''0xabc'')])
   \<and> fst (post_check_key_status (Parsed (JObj [(''address'', JStr ''0xABC'')])) True
        (snd (post_toggle_key_status
                (Parsed (JObj [(''address'', JStr ''0xABC''), (''action'', JStr ''enable'')]))
                True
                (empty_store\<lparr>disabled_keys :=
                   [\<lparr>key_address = ''0xabc'', reason = Some ''Disabled by user''\<rparr>]\<rparr>))))
       = Response 200 (JObj [(''disabled'', JBool False), (''address'', JStr ''0xabc'')])
   \<and> post_toggle_key_status
        (Parsed (JObj [(''address'', JStr ''0xABC''), (''action'', JStr ''disable'')])) True
        (empty_store\<lparr>disabled_keys :=
           [\<lparr>key_address = ''0xabc'', reason = Some ''Disabled by user''\<rparr>]\<rparr>)
       = (Response 200 (JObj [(''success'', JBool True), (''status'', JStr ''disabled''),
                              (''address'', JStr ''0xabc'')]),
          empty_store\<lparr>disabled_keys :=
           [\<lparr>key_address = ''0xabc'', reason = Some ''Disabled by user''\<rparr>]\<rparr>)
   \<and> post_toggle_key_status
        (Parsed (JObj [(''address'', JStr ''0xABC''), (''action'', JStr ''enable'')])) True
        empty_store
       = (Response 200 (JObj [(''success'', JBool True), (''status'', JStr ''enabled''),
                              (''address'', JStr ''0xabc'')]),
          empty_store)"
  using disable_enable_round_trip [of "''0xABC''" empty_store]
    disable_enable_round_trip
      [of "''0xABC''"
          "empty_store\<lparr>disabled_keys :=
             [\<lparr>key_address = ''0xabc'', reason = Some ''Disabled by user''\<rparr>]\<rparr>"]
  by (simp add: lower_samples empty_store_def)

section \<open>Verification registry\<close>

lemma upsert_permanent_keys:
  "map pv_address (permanent_verified (upsert_permanent_verified a now db_now db)) =
     (if a \<in> set (map pv_address (permanent_verified db))
      then map pv_address (permanent_verified db)
      else map pv_address (permanent_verified db) @ [a])"
  by (auto simp add: upsert_permanent_verified_def comp_def intro!: map_cong)

lemma upsert_permanent_pk:
  "pk_permanent_verified db \<Longrightarrow>
   pk_permanent_verified (upsert_permanent_verified a now db_now db)"
  unfolding pk_permanent_verified_def upsert_permanent_keys by simp

lemma upsert_permanent_length:
  "a \<in> set (map pv_address (permanent_verified db)) \<Longrightarrow>
   length (permanent_verified (upsert_permanent_verified a now db_now db))
     = length (permanent_verified db)"
  by (simp add: upsert_permanent_verified_def)

lemma upsert_permanent_refresh:
  assumes "pk_permanent_verified db" and "a \<in> set (map pv_address (permanent_verified db))"
  shows "filter (\<lambda>r. pv_address r = a)
           (permanent_verified (upsert_permanent_verified a now db_now db))
         = [\<lparr>pv_address = a, verified_at = Some db_now, expires_at = None\<rparr>]"
proof -
  obtain x where x: "filter (\<lambda>r. pv_address r = a) (permanent_verified db) = [x]"
      "pv_address x = a"
    using filter_key_single [of pv_address "permanent_verified db" a] assms
    by (auto simp add: pk_permanent_verified_def)
  have "filter (\<lambda>r. pv_address r = a)
          (map (\<lambda>r. if pv_address r = a
                     then r\<lparr>verified_at := Some db_now, expires_at := None\<rparr> else r)
               (permanent_verified db))
        = map (\<lambda>r. if pv_address r = a
                     then r\<lparr>verified_at := Some db_now, expires_at := None\<rparr> else r)
              (filter (\<lambda>r. pv_address r = a) (permanent_verified db))"
    by (simp add: filter_map comp_def if_distrib [of pv_address] cong: if_cong)
  then show ?thesis using assms(2) x by (simp add: upsert_permanent_verified_def)
qed

text \<open>Whatever the request, the handler leaves the store alone or runs the upsert once.\<close>

lemma post_permanent_verified_store:
  "snd (post_permanent_verified b now db_now up db) = db
   \<or> (\<exists>a. snd (post_permanent_verified b now db_now up db)
             = upsert_permanent_verified a now db_now db)"
  by (auto simp add: post_permanent_verified_def json_loads_def bind_exn_def
      split: body.splits sum.splits)

lemma post_permanent_verified_pk:
  "pk_permanent_verified db \<Longrightarrow>
   pk_permanent_verified (snd (post_permanent_verified b now db_now up db))"
  using post_permanent_verified_store [of b now db_now up db]
  by (auto simp add: upsert_permanent_pk)

lemma serve_permanent_verified_pk:
  "pk_permanent_verified db \<Longrightarrow> pk_permanent_verified (serve_permanent_verified calls db)"
  by (induction calls db rule: serve_permanent_verified.induct)
     (simp_all add: post_permanent_verified_pk)

lemma post_permanent_verified_add:
  assumes "py_get data ''address'' (JStr []) = Inr (JStr a)"
    and "py_get data ''action'' (JStr ''add'') = Inr (JStr ''add'')"
    and "startswith (map lower_char a) ''0x''"
  shows "post_permanent_verified (Parsed data) now db_now True db =
           (Response 200 (JObj [(''success'', JBool True)]),
            upsert_permanent_verified (map lower_char a) now db_now db)"
  using assms startswith_nonempty [OF assms(3)]
  by (simp add: post_permanent_verified_def json_loads_def bind_exn_def py_lower_def)

text \<open>
  Claim C9 (one row per address). The handler keeps the primary key of
  \<^verbatim>\<open>permanent_verified\<close>: from a store that respects it (the empty store does), any
  sequence of requests to \<^verbatim>\<open>/api/permanent-verified\<close>, well-formed or not, leads to a
  store with at most one row per address. When a well-formed \<^verbatim>\<open>add\<close> request is served
  a second time, the table keeps its length, and the one row of the (lowercased) address
  has \<^verbatim>\<open>verified_at\<close> equal to the database's current time at the second call and no
  expiry.
\<close>

theorem mark_permanent_one_row_per_address:
  assumes "pk_permanent_verified db"
    and "py_get data ''address'' (JStr []) = Inr (JStr a)"
    and "py_get data ''action'' (JStr ''add'') = Inr (JStr ''add'')"
    and "startswith (map lower_char a) ''0x''"
  shows "distinct (map pv_address (permanent_verified (serve_permanent_verified calls db)))
       \<and> distinct (map pv_address
                      (permanent_verified (serve_permanent_verified calls empty_store)))
       \<and> filter (\<lambda>r. pv_address r = map lower_char a)
            (permanent_verified
               (snd (post_permanent_verified (Parsed data) now2 db_now2 True
                  (snd (post_permanent_verified (Parsed data) now1 db_now1 True db)))))
           = [\<lparr>pv_address = map lower_char a, verified_at = Some db_now2, expires_at = None\<rparr>]
       \<and> length (permanent_verified
               (snd (post_permanent_verified (Parsed data) now2 db_now2 True
                  (snd (post_permanent_verified (Parsed data) now1 db_now1 True db)))))
           = length (permanent_verified
               (snd (post_permanent_verified (Parsed data) now1 db_now1 True db)))"
proof -
  let ?a = "map lower_char a"
  let ?db1 = "upsert_permanent_verified ?a now1 db_now1 db"
  have pk1: "pk_permanent_verified ?db1"
    using assms(1) by (rule upsert_permanent_pk)
  have present: "?a \<in> set (map pv_address (permanent_verified ?db1))"
    unfolding upsert_permanent_keys by simp
  have "pk_permanent_verified empty_store"
    by (simp add: pk_permanent_verified_def empty_store_def)
  then have "pk_permanent_verified (serve_permanent_verified calls empty_store)"
    by (rule serve_permanent_verified_pk)
  moreover have "pk_permanent_verified (serve_permanent_verified calls db)"
    using assms(1) by (rule serve_permanent_verified_pk)
  ultimately show ?thesis
    using upsert_permanent_refresh [OF pk1 present, of now2 db_now2]
      upsert_permanent_length [OF present, of now2 db_now2]
    by (simp add: post_permanent_verified_add [OF assms(2-4)] pk_permanent_verified_def)
qed

theorem mark_permanent_one_row_per_address_witness:
  "pk_permanent_verified empty_store
   \<and> startswith (map lower_char ''0xABC'') ''0x''
   \<and> permanent_verified
       (serve_permanent_verified
          [(Parsed (JObj [(''address'', JStr ''0xABC'')]), 100, 101, True),
           (Parsed (JObj [(''address'', JStr ''0xabc'')]), 200, 201, True)]
          empty_store)
       = [\<lparr>pv_address = ''0xabc'', verified_at = Some 201, expires_at = None\<rparr>]
   \<and> distinct (map pv_address (permanent_verified
       (serve_permanent_verified
          [(Parsed (JObj [(''address'', JStr ''0xABC'')]), 100, 101, True),
           (Parsed (JObj [(''address'', JStr ''0xabc'')]), 200, 201, True)]
          empty_store)))
   \<and> filter (\<lambda>r. pv_address r = ''0xabc'')
        (permanent_verified
           (snd (post_permanent_verified (Parsed (JObj [(''address'', JStr ''0xABC'')]))
                   200 201 True
              (snd (post_permanent_verified (Parsed (JObj [(''address'', JStr ''0xABC'')]))
                      100 101 True empty_store)))))
       = [\<lparr>pv_address = ''0xabc'', verified_at = Some 201, expires_at = None\<rparr>]"
  using mark_permanent_one_row_per_address
          [of empty_store "JObj [(''address'', JStr ''0xABC'')]" "''0xABC''"
              "[(Parsed (JObj [(''address'', JStr ''0xABC'')]), 100, 101, True),
                (Parsed (JObj [(''address'', JStr ''0xabc'')]), 200, 201, True)]"
              200 201 100 101]
  by (simp add: lower_samples startswith_def py_get_def pk_permanent_verified_def
      empty_store_def post_permanent_verified_def json_loads_def bind_exn_def py_lower_def
      upsert_permanent_verified_def)

section \<open>The check of the address\<close>

text \<open>
  Claim C10, as amended. The address is lowercased before it is tested, so the prefix may
  be written \<^verbatim>\<open>0X\<close>. What holds, for a request whose \<^verbatim>\<open>address\<close> is a string (or absent,
  which counts as empty): if the lowercased address is empty or does not start with
  \<^verbatim>\<open>0x\<close>, \<^verbatim>\<open>/api/permanent-verified\<close> answers 500 with the error \<^verbatim>\<open>Invalid address\<close> and
  \<^verbatim>\<open>/api/auto-claim-schedule\<close> answers 500 with \<^verbatim>\<open>success\<close> false, both with the same
  answer for every store, reachable or not, and both leave the store as it was; while
  \<^verbatim>\<open>/api/check-key-status\<close> answers 200 for every non-empty address, with the prefix or
  without, and reports whether the lowercased address has a marker.
\<close>

theorem address_format_gate:
  assumes "py_get data ''address'' (JStr []) = Inr (JStr a)"
  shows "(a = [] \<or> \<not> startswith (map lower_char a) ''0x'' \<longrightarrow>
            post_permanent_verified (Parsed data) now db_now up db
              = (Response 500 (JObj [(''success'', JBool False),
                                     (''error'', JStr ''Invalid address'')]), db)
            \<and> snd (post_auto_claim_schedule (Parsed data) now1 now2 up db) = db
            \<and> (\<exists>e. fst (post_auto_claim_schedule (Parsed data) now1 now2 up db)
                      = Response 500 (failure_body e)))
       \<and> (a \<noteq> [] \<longrightarrow>
            post_check_key_status (Parsed data) True db
              = (Response 200
                   (JObj [(''disabled'',
                           JBool (map lower_char a \<in> set (map key_address (disabled_keys db)))),
                          (''address'', JStr (map lower_char a))]),
                 db))"
proof -
  obtain kvs where data: "data = JObj kvs"
    using assms by (cases data) (simp_all add: py_get_def)
  obtain nv where nv: "py_get data ''network'' (JStr ''celo'') = Inr nv"
    by (simp add: data py_get_def)
  obtain act where act: "py_get data ''action'' (JStr ''add'') = Inr act"
    by (simp add: data py_get_def)
  note eq = post_auto_claim_schedule_cases [OF assms nv, of now1 now2 up db]
  have permanent: "post_permanent_verified (Parsed data) now db_now up db
              = (Response 500 (JObj [(''success'', JBool False),
                                     (''error'', JStr ''Invalid address'')]), db)"
    if "a = [] \<or> \<not> startswith (map lower_char a) ''0x''"
    using that assms act
    by (auto simp add: post_permanent_verified_def json_loads_def bind_exn_def py_lower_def
        failure_body_def)
  have unchanged: "snd (post_auto_claim_schedule (Parsed data) now1 now2 up db) = db"
    if "a = [] \<or> \<not> startswith (map lower_char a) ''0x''"
    using that unfolding eq by (auto simp add: py_lower_def split: sum.splits)
  have failed: "\<exists>e. fst (post_auto_claim_schedule (Parsed data) now1 now2 up db)
                  = Response 500 (failure_body e)"
    if "a = [] \<or> \<not> startswith (map lower_char a) ''0x''"
    using that unfolding eq by (auto simp add: py_lower_def split: sum.splits)
  have check: "post_check_key_status (Parsed data) True db
              = (Response 200
                   (JObj [(''disabled'',
                           JBool (map lower_char a \<in> set (map key_address (disabled_keys db)))),
                          (''address'', JStr (map lower_char a))]),
                 db)"
    if "a \<noteq> []"
    using assms that by (rule post_check_key_status_nonempty)
  show ?thesis using permanent unchanged failed check by blast
qed

theorem address_format_gate_witness:
  "py_get (JObj [(''address'', JStr ''abc'')]) ''address'' (JStr []) = Inr (JStr ''abc'')
   \<and> \<not> startswith (map lower_char ''abc'') ''0x''
   \<and> ''abc'' \<noteq> []
   \<and> post_permanent_verified (Parsed (JObj [(''address'', JStr ''abc'')])) 100 101 True
        empty_store
       = (Response 500 (JObj [(''success'', JBool False),
                              (''error'', JStr ''Invalid address'')]), empty_store)
   \<and> snd (post_auto_claim_schedule (Parsed (JObj [(''address'', JStr ''abc'')])) 100 101 True
        empty_store) = empty_store
   \<and> post_check_key_status (Parsed (JObj [(''address'', JStr ''abc'')])) True empty_store
       = (Response 200 (JObj [(''disabled'', JBool False), (''address'', JStr ''abc'')]),
          empty_store)"
  using address_format_gate
          [of "JObj [(''address'', JStr ''abc'')]" "''abc''" 100 101 True empty_store 100 101]
  by (simp add: lower_samples startswith_def py_get_def empty_store_def)

text \<open>The claim as stated fails for the prefix in capitals: \<^verbatim>\<open>0Xabc\<close> does not start with
  \<^verbatim>\<open>0x\<close>, and the request is accepted and a row is created.\<close>

theorem address_format_gate_counterexample:
  "\<not> startswith ''0Xabc'' ''0x''
   \<and> post_permanent_verified (Parsed (JObj [(''address'', JStr ''0Xabc'')])) 100 101 True
        empty_store
       = (Response 200 (JObj [(''success'', JBool True)]),
          empty_store\<lparr>permanent_verified :=
            [\<lparr>pv_address = ''0xabc'', verified_at = Some 100, expires_at = None\<rparr>]\<rparr>)"
  by code_simp

end
